theory Spec2Isabelle
  imports Main "HOL-Library.AList"
begin

text \<open>
  A model of \<^verbatim>\<open>Chart\<close> (\<^verbatim>\<open>highcharts/chart.py\<close>) and of \<^verbatim>\<open>ArcDiagramData\<close>
  (\<^verbatim>\<open>highcharts_core/options/series/data/arcdiagram.py\<close>). The definitions carry the names
  of the source; a leading underscore is dropped, a method that both classes define is
  prefixed with its class, and the parameter of the setters and of \<^verbatim>\<open>from_list\<close> is
  \<open>value\<close> as in the source. An exception is a result \<open>Inl e\<close>, a returned value a
  result \<open>Inr v\<close>.
\<close>

section \<open>Python values\<close>

text \<open>
  The configuration trees handled by \<^verbatim>\<open>Chart._copy_dict_key\<close> are nested Python
  values. Numbers are integers here (floats and decimals are not represented). A dict
  is an association list in insertion order with string keys. \<open>PObj cls ident\<close> is
  an instance of a class that these files import but do not define (for example
  \<^verbatim>\<open>HighchartsOptions\<close>), given by its class name and an identifying text.
\<close>

datatype pyval =
    PNone
  | PBool bool
  | PInt int
  | PStr string
  | PList "pyval list"
  | PDict "(string \<times> pyval) list"
  | PObj string string

type_synonym pydict = "(string \<times> pyval) list"

datatype error =
    KeyError string
  | AttributeError
  | TypeError
  | HighchartsValueError
  | ValidatorError

text \<open>Python truth value of an object (\<^verbatim>\<open>if x:\<close>, \<^verbatim>\<open>not x\<close>, \<^verbatim>\<open>x or y\<close>). An instance
  of a class without \<^verbatim>\<open>__bool__\<close> and \<^verbatim>\<open>__len__\<close> is true.\<close>

fun truthy :: "pyval \<Rightarrow> bool" where
  "truthy PNone = False"
| "truthy (PBool b) = b"
| "truthy (PInt i) = (i \<noteq> 0)"
| "truthy (PStr s) = (s \<noteq> [])"
| "truthy (PList xs) = (xs \<noteq> [])"
| "truthy (PDict d) = (d \<noteq> [])"
| "truthy (PObj c i) = True"

text \<open>\<^verbatim>\<open>x or y\<close>\<close>

definition py_or :: "pyval \<Rightarrow> pyval \<Rightarrow> pyval" where
  "py_or x y = (if truthy x then x else y)"

text \<open>\<^verbatim>\<open>d.get(key, None)\<close>; only a dict has the method.\<close>

fun dict_get :: "pyval \<Rightarrow> string \<Rightarrow> error + pyval" where
  "dict_get (PDict d) key = Inr (case map_of d key of None \<Rightarrow> PNone | Some v \<Rightarrow> v)"
| "dict_get _ key = Inl AttributeError"

text \<open>\<^verbatim>\<open>len(x)\<close>\<close>

fun py_len :: "pyval \<Rightarrow> error + nat" where
  "py_len (PStr s) = Inr (length s)"
| "py_len (PList xs) = Inr (length xs)"
| "py_len (PDict d) = Inr (length d)"
| "py_len _ = Inl TypeError"

text \<open>\<^verbatim>\<open>for x in v\<close>: the items of a list, the keys of a dict, the characters of a
  string; anything else is not iterable.\<close>

fun py_iter :: "pyval \<Rightarrow> error + pyval list" where
  "py_iter (PList xs) = Inr xs"
| "py_iter (PDict d) = Inr (map (\<lambda>kv. PStr (fst kv)) d)"
| "py_iter (PStr s) = Inr (map (\<lambda>c. PStr [c]) s)"
| "py_iter _ = Inl TypeError"

text \<open>\<^verbatim>\<open>checkers.is_iterable(v, forbid_literals = (str, bytes, dict, UserDict))\<close>:
  of the values represented here only a list is iterable and not forbidden.\<close>

fun is_iterable_forbid :: "pyval \<Rightarrow> bool" where
  "is_iterable_forbid (PList xs) = True"
| "is_iterable_forbid _ = False"

section \<open>The deep merge: \<^verbatim>\<open>Chart._copy_dict_key\<close>\<close>

text \<open>\<^verbatim>\<open>checkers.are_dicts_equivalent(a, b)\<close> belongs to the validator-collection
  package. It holds of dicts only; how it compares two dicts is the parameter \<open>eqv\<close>.\<close>

fun are_dicts_equivalent :: "(pydict \<Rightarrow> pydict \<Rightarrow> bool) \<Rightarrow> pyval \<Rightarrow> pyval \<Rightarrow> bool" where
  "are_dicts_equivalent eqv (PDict a) (PDict b) = eqv a b"
| "are_dicts_equivalent eqv _ _ = False"

text \<open>Lines 303-313: every original item is paired with the first equivalent item of
  the other list, or else is new.\<close>

fun match_series ::
  "(pydict \<Rightarrow> pydict \<Rightarrow> bool) \<Rightarrow> pyval list \<Rightarrow> pyval list \<Rightarrow> (pyval \<times> pyval) list \<times> pyval list"
where
  "match_series eqv [] other_value = ([], [])"
| "match_series eqv (original_item # rest) other_value =
    (let (matched_series, new_series) = match_series eqv rest other_value in
     case find (are_dicts_equivalent eqv original_item) other_value of
       Some other_item \<Rightarrow> ((original_item, other_item) # matched_series, new_series)
     | None \<Rightarrow> (matched_series, original_item # new_series))"

text \<open>The loop \<^verbatim>\<open>for subkey in d: new[subkey] = cls._copy_dict_key(subkey, d, other, ...)\<close>.
  \<open>f\<close> is the recursive call; it is given the dict built so far because the series
  branch passes that dict as \<^verbatim>\<open>other\<close>. The first exception ends the loop.\<close>

fun copy_subkeys ::
  "(pydict \<Rightarrow> string \<Rightarrow> (error + pyval) option) \<Rightarrow> string list \<Rightarrow> pydict \<Rightarrow> (error + pydict) option"
where
  "copy_subkeys f [] new_value = Some (Inr new_value)"
| "copy_subkeys f (subkey # rest) new_value =
    (case f new_value subkey of
       None \<Rightarrow> None
     | Some (Inl e) \<Rightarrow> Some (Inl e)
     | Some (Inr v) \<Rightarrow> copy_subkeys f rest (AList.update subkey v new_value))"

text \<open>Lines 314-326: one new item per matched pair. \<open>g\<close> builds the new item from
  the original one. A matched original item is a dict, since only dicts are equivalent.\<close>

fun update_series ::
  "(pydict \<Rightarrow> (error + pydict) option) \<Rightarrow> (pyval \<times> pyval) list \<Rightarrow> (error + pyval list) option"
where
  "update_series g [] = Some (Inr [])"
| "update_series g (items # rest) =
    (case fst items of
       PDict original_item \<Rightarrow>
         (case g original_item of
            None \<Rightarrow> None
          | Some (Inl e) \<Rightarrow> Some (Inl e)
          | Some (Inr new_item) \<Rightarrow>
              (case update_series g rest of
                 None \<Rightarrow> None
               | Some (Inl e) \<Rightarrow> Some (Inl e)
               | Some (Inr updated_series) \<Rightarrow> Some (Inr (PDict new_item # updated_series))))
     | _ \<Rightarrow> Some (Inl TypeError))"

text \<open>The result of a call: \<open>None\<close> when the bound on the depth of the recursion was
  reached, \<open>Some (Inl e)\<close> when the exception \<open>e\<close> was raised, \<open>Some (Inr v)\<close> when
  \<open>v\<close> was returned.\<close>

type_synonym outcome = "(error + pyval) option"

text \<open>Lines 299-329, the branch \<^verbatim>\<open>key == 'series' and preserve_data\<close>. \<open>call\<close> is the
  recursive call \<^verbatim>\<open>cls._copy_dict_key(subkey, original_item, new_item, ...)\<close>. When the
  two lengths are equal no \<^verbatim>\<open>return\<close> is reached, and the function returns \<^verbatim>\<open>None\<close>.\<close>

definition series_branch ::
  "(pydict \<Rightarrow> pydict \<Rightarrow> bool) \<Rightarrow> (string \<Rightarrow> pydict \<Rightarrow> pyval \<Rightarrow> outcome) \<Rightarrow> pyval \<Rightarrow> pyval \<Rightarrow> outcome"
where
  "series_branch eqv call original_value other_value =
    (if \<not> truthy other_value then
       (case py_iter original_value of
          Inl e \<Rightarrow> Some (Inl e)
        | Inr xs \<Rightarrow> Some (Inr (PList xs)))
     else
       (case py_len other_value of
          Inl e \<Rightarrow> Some (Inl e)
        | Inr other_len \<Rightarrow>
           (case py_len original_value of
              Inl e \<Rightarrow> Some (Inl e)
            | Inr original_len \<Rightarrow>
               if other_len \<noteq> original_len then
                 (case py_iter original_value of
                    Inl e \<Rightarrow> Some (Inl e)
                  | Inr original_items \<Rightarrow>
                     (case py_iter other_value of
                        Inl e \<Rightarrow> Some (Inl e)
                      | Inr other_items \<Rightarrow>
                         (case update_series
                                 (\<lambda>original_item.
                                    copy_subkeys
                                      (\<lambda>new_item subkey. call subkey original_item (PDict new_item))
                                      (map fst original_item) [])
                                 (fst (match_series eqv original_items other_items)) of
                            None \<Rightarrow> None
                          | Some (Inl e) \<Rightarrow> Some (Inl e)
                          | Some (Inr updated_series) \<Rightarrow>
                              Some (Inr (PList (updated_series
                                 @ snd (match_series eqv original_items other_items)))))))
               else Some (Inr PNone))))"

text \<open>Lines 331-341, the branch for a dict \<open>d\<close> as original value.\<close>

definition dict_branch ::
  "(string \<Rightarrow> pydict \<Rightarrow> pyval \<Rightarrow> outcome) \<Rightarrow> pydict \<Rightarrow> pyval \<Rightarrow> outcome"
where
  "dict_branch call d other_value =
    (case copy_subkeys (\<lambda>new_value subkey. call subkey d other_value) (map fst d) [] of
       None \<Rightarrow> None
     | Some (Inl e) \<Rightarrow> Some (Inl e)
     | Some (Inr new_value) \<Rightarrow> Some (Inr (PDict new_value)))"

text \<open>Lines 343-358, the branches for a value that is not a dict.\<close>

definition leaf_branch :: "pyval \<Rightarrow> pyval \<Rightarrow> bool \<Rightarrow> outcome" where
  "leaf_branch original_value other_value overwrite =
    (if is_iterable_forbid original_value then
       (if overwrite then
          (case py_iter original_value of
             Inl e \<Rightarrow> Some (Inl e)
           | Inr xs \<Rightarrow> Some (Inr (PList xs)))
        else Some (Inr other_value))
     else if truthy other_value \<and> \<not> overwrite then Some (Inr other_value)
     else Some (Inr original_value))"

text \<open>
  \<^verbatim>\<open>_copy_dict_key(key, original, other, overwrite, preserve_data = ...)\<close> with a bound
  on the depth of the recursion. \<^verbatim>\<open>original[key]\<close> raises \<^verbatim>\<open>KeyError\<close> for a missing
  key and is evaluated before \<^verbatim>\<open>other.get(key, None)\<close>.
\<close>

fun copy_dict_key_fuel ::
  "(pydict \<Rightarrow> pydict \<Rightarrow> bool) \<Rightarrow> nat \<Rightarrow> string \<Rightarrow> pydict \<Rightarrow> pyval \<Rightarrow> bool \<Rightarrow> bool \<Rightarrow> outcome"
where
  "copy_dict_key_fuel eqv 0 key original other overwrite preserve_data = None"
| "copy_dict_key_fuel eqv (Suc n) key original other overwrite preserve_data =
    (case map_of original key of
       None \<Rightarrow> Some (Inl (KeyError key))
     | Some original_value \<Rightarrow>
        (case dict_get other key of
           Inl e \<Rightarrow> Some (Inl e)
         | Inr other_value \<Rightarrow>
            if key = ''data'' \<and> preserve_data then Some (Inr other_value)
            else if key = ''points'' \<and> preserve_data then Some (Inr other_value)
            else if key = ''series'' \<and> preserve_data then
              series_branch eqv
                (\<lambda>subkey original_item new_item.
                   copy_dict_key_fuel eqv n subkey original_item new_item overwrite preserve_data)
                original_value other_value
            else
              (case original_value of
                 PDict d \<Rightarrow>
                   dict_branch
                     (\<lambda>subkey original_value other_value.
                        copy_dict_key_fuel eqv n subkey original_value other_value
                          overwrite preserve_data)
                     d other_value
               | _ \<Rightarrow> leaf_branch original_value other_value overwrite)))"

text \<open>The nesting depth of a value; a call needs no more levels of recursion than the
  depth of its \<^verbatim>\<open>original\<close> dict.\<close>

fun depth :: "pyval \<Rightarrow> nat" where
  "depth (PList xs) = Suc (fold max (map depth xs) 0)"
| "depth (PDict d) = Suc (fold max (map (\<lambda>kv. depth (snd kv)) d) 0)"
| "depth _ = 0"

definition copy_dict_key ::
  "(pydict \<Rightarrow> pydict \<Rightarrow> bool) \<Rightarrow> string \<Rightarrow> pydict \<Rightarrow> pyval \<Rightarrow> bool \<Rightarrow> bool \<Rightarrow> outcome"
where
  "copy_dict_key eqv key original other overwrite preserve_data =
     copy_dict_key_fuel eqv (depth (PDict original)) key original other overwrite preserve_data"


section \<open>The validator-collection package\<close>

text \<open>
  The property setters and \<^verbatim>\<open>from_list\<close> call \<^verbatim>\<open>validators\<close> and \<^verbatim>\<open>checkers\<close> of the
  validator-collection package, which these files import and do not contain. What its
  functions return is a parameter of the model:
  \<^item> \<open>validators_string v\<close> is \<^verbatim>\<open>validators.string(v, allow_empty = True)\<close>, which returns
    a string or \<^verbatim>\<open>None\<close>, or raises;
  \<^item> \<open>validators_numeric v\<close> is \<^verbatim>\<open>validators.numeric(v, allow_empty = True)\<close>;
  \<^item> \<open>validators_json s\<close> is \<^verbatim>\<open>validators.json(s)\<close>, with \<open>None\<close> when it raises
    \<^verbatim>\<open>ValueError\<close> or \<^verbatim>\<open>TypeError\<close>;
  \<^item> \<open>checkers_is_numeric v\<close> is \<^verbatim>\<open>checkers.is_numeric(v)\<close>.
\<close>

record validator_collection =
  validators_string :: "pyval \<Rightarrow> error + string option"
  validators_numeric :: "pyval \<Rightarrow> error + pyval"
  validators_json :: "string \<Rightarrow> pyval option"
  checkers_is_numeric :: "pyval \<Rightarrow> bool"

text \<open>\<^verbatim>\<open>checkers.is_string\<close>, \<^verbatim>\<open>checkers.is_dict\<close>, \<^verbatim>\<open>checkers.is_iterable\<close> (strings and
  bytes forbidden) and \<^verbatim>\<open>checkers.is_type(v, name)\<close> test the type of a value. The base
  classes of an object's class are not represented.\<close>

fun is_string :: "pyval \<Rightarrow> bool" where
  "is_string (PStr s) = True"
| "is_string _ = False"

fun is_dict :: "pyval \<Rightarrow> bool" where
  "is_dict (PDict d) = True"
| "is_dict _ = False"

fun is_iterable :: "pyval \<Rightarrow> bool" where
  "is_iterable (PList xs) = True"
| "is_iterable (PDict d) = True"
| "is_iterable _ = False"

fun is_type :: "pyval \<Rightarrow> string \<Rightarrow> bool" where
  "is_type (PObj cls ident) name = (cls = name)"
| "is_type _ name = False"

text \<open>A string attribute (\<^verbatim>\<open>Optional[str]\<close>) as a Python value.\<close>

fun opt_str :: "string option \<Rightarrow> pyval" where
  "opt_str None = PNone"
| "opt_str (Some s) = PStr s"

section \<open>\<^verbatim>\<open>Chart\<close>\<close>

text \<open>The four attributes of a chart. \<open>callback\<close> and \<open>options\<close> hold \<open>PNone\<close> or
  an object; \<open>container\<close> and \<open>variable_name\<close> hold what their validators returned.\<close>

record chart =
  callback :: pyval
  container :: "string option"
  options :: pyval
  variable_name :: "string option"

text \<open>Lines 72-74, the setter of \<^verbatim>\<open>container\<close>, and lines 63-70, its getter.\<close>

definition set_container :: "validator_collection \<Rightarrow> chart \<Rightarrow> pyval \<Rightarrow> error + chart" where
  "set_container vc self value =
     (case validators_string vc value of
        Inl e \<Rightarrow> Inl e
      | Inr validated \<Rightarrow> Inr (self\<lparr>container := validated\<rparr>))"

definition get_container :: "chart \<Rightarrow> string option" where
  "get_container self = container self"

text \<open>\<^verbatim>\<open>as_dict.get(key, None)\<close> on a dict.\<close>

definition dget :: "pydict \<Rightarrow> string \<Rightarrow> pyval" where
  "dget as_dict key = (case map_of as_dict key of None \<Rightarrow> PNone | Some v \<Rightarrow> v)"

text \<open>Lines 105-115 and 117-124.\<close>

definition Chart_get_kwargs_from_dict :: "pydict \<Rightarrow> pydict" where
  "Chart_get_kwargs_from_dict as_dict =
     [(''callback'', dget as_dict ''callback''),
      (''container'', py_or (dget as_dict ''container'') (dget as_dict ''renderTo'')),
      (''options'', py_or (dget as_dict ''options'') (dget as_dict ''userOptions'')),
      (''variable_name'', py_or (dget as_dict ''variable_name'') (dget as_dict ''variableName''))]"

definition Chart_to_untrimmed_dict :: "chart \<Rightarrow> pydict" where
  "Chart_to_untrimmed_dict self =
     [(''callback'', callback self),
      (''container'', opt_str (container self)),
      (''userOptions'', options self)]"

text \<open>
  Lines 165-207 of \<^verbatim>\<open>to_js_literal\<close>. \<open>js v\<close> is the text that the \<^verbatim>\<open>to_js_literal\<close>
  method of the object \<open>v\<close> returns (the classes of \<^verbatim>\<open>options\<close> and \<^verbatim>\<open>callback\<close> are
  not in these files). \<open>files\<close> maps a path to the text of the file there; the result
  is the returned string and the files afterwards. Lines 154-163 call
  \<^verbatim>\<open>validators.path\<close> and fill a dict \<^verbatim>\<open>as_dict\<close> that nothing reads afterwards; the
  model takes it that these calls return, the path unchanged.
\<close>

definition quote :: string where
  "quote = [CHR 0x27]"

definition newline :: string where
  "newline = [CHR 0x0A]"

definition to_js_literal ::
  "(pyval \<Rightarrow> string) \<Rightarrow> chart \<Rightarrow> string option \<Rightarrow> (string \<rightharpoonup> string)
    \<Rightarrow> string \<times> (string \<rightharpoonup> string)"
where
  "to_js_literal js self filename files =
    (let container_as_str =
           (if truthy (opt_str (container self))
            then ''renderTo = '' @ quote @ the (container self) @ quote else []);
         options_as_str =
           (if truthy (options self) then ''options = '' @ js (options self) else []);
         callback_as_str =
           (if truthy (callback self) then ''callback = '' @ js (callback self) else []);
         signature_elements =
           (if truthy (opt_str (container self)) then 1 else 0)
           + (if truthy (options self) then 1 else 0)
           + (if truthy (callback self) then (1::nat) else 0);
         signature0 = ''new Highcharts.chart('';
         signature1 =
           (if container_as_str \<noteq> [] then
              signature0 @ container_as_str @ (if signature_elements > 1 then '','' @ newline else [])
            else signature0);
         signature2 =
           (if options_as_str \<noteq> [] then
              signature1 @ options_as_str @ (if signature_elements > 1 then '','' @ newline else [])
            else signature1);
         signature3 =
           (if callback_as_str \<noteq> [] then signature2 @ callback_as_str else signature2);
         signature = signature3 @ '');'';
         prefix =
           (if truthy (opt_str (variable_name self))
            then ''var '' @ the (variable_name self) @ '' = '' else []);
         as_str = prefix @ signature
     in (as_str,
         if truthy (opt_str filename) then files(the filename \<mapsto> as_str) else files))"

text \<open>
  Lines 252-267 of \<^verbatim>\<open>download_chart\<close>. \<^verbatim>\<open>ExportServer\<close> is not in these files; the
  model returns the call that is made to it, with its arguments, in place of the
  image that the call returns.
\<close>

datatype export_call =
    Get_chart pyval pyval pyval pyval pydict
  | Request_chart pyval pyval pyval pyval pyval

definition download_chart ::
  "chart \<Rightarrow> pyval \<Rightarrow> pyval \<Rightarrow> pyval \<Rightarrow> pyval \<Rightarrow> pyval \<Rightarrow> pydict \<Rightarrow> error + export_call"
where
  "download_chart self filename auth_user auth_password timeout server_instance kwargs =
    (if \<not> truthy server_instance then
       Inr (Get_chart filename auth_user auth_password timeout kwargs)
     else if \<not> is_type server_instance ''ExportServer'' then Inl HighchartsValueError
     else Inr (Request_chart server_instance filename auth_user auth_password timeout))"

section \<open>\<^verbatim>\<open>ArcDiagramData\<close>\<close>

text \<open>The properties that \<^verbatim>\<open>ArcDiagramData\<close> inherits from \<^verbatim>\<open>DataBase\<close> and reads in
  \<^verbatim>\<open>_to_untrimmed_dict\<close>, and its own three. The fields \<open>id'\<close> and \<open>from'\<close> are the
  properties \<^verbatim>\<open>id\<close> and \<^verbatim>\<open>from_\<close>.\<close>

record data_base =
  accessibility :: pyval
  class_name :: pyval
  color :: pyval
  color_index :: pyval
  custom :: pyval
  description :: pyval
  events :: pyval
  id' :: pyval
  label_rank :: pyval
  name :: pyval
  selected :: pyval

record arc_diagram_data = data_base +
  from' :: "string option"
  to :: "string option"
  weight :: pyval

text \<open>Lines 90-92, the setter of \<^verbatim>\<open>weight\<close>, and lines 81-88, its getter.\<close>

definition set_weight ::
  "validator_collection \<Rightarrow> arc_diagram_data \<Rightarrow> pyval \<Rightarrow> error + arc_diagram_data" where
  "set_weight vc self value =
     (case validators_numeric vc value of
        Inl e \<Rightarrow> Inl e
      | Inr validated \<Rightarrow> Inr (self\<lparr>weight := validated\<rparr>))"

definition get_weight :: "arc_diagram_data \<Rightarrow> pyval" where
  "get_weight self = weight self"

text \<open>Lines 170-201 and 203-222.\<close>

definition ArcDiagramData_get_kwargs_from_dict :: "pydict \<Rightarrow> pydict" where
  "ArcDiagramData_get_kwargs_from_dict as_dict =
     [(''accessibility'', dget as_dict ''accessibility''),
      (''class_name'', dget as_dict ''className''),
      (''color'', dget as_dict ''color''),
      (''color_index'', dget as_dict ''colorIndex''),
      (''custom'', dget as_dict ''custom''),
      (''description'', dget as_dict ''description''),
      (''events'', dget as_dict ''events''),
      (''id'', dget as_dict ''id''),
      (''label_rank'', dget as_dict ''labelrank''),
      (''name'', dget as_dict ''name''),
      (''selected'', dget as_dict ''selected''),
      (''from_'', dget as_dict ''from''),
      (''to'', dget as_dict ''to''),
      (''weight'', dget as_dict ''weight'')]"

definition ArcDiagramData_to_untrimmed_dict :: "arc_diagram_data \<Rightarrow> pydict" where
  "ArcDiagramData_to_untrimmed_dict self =
     [(''from'', opt_str (from' self)),
      (''to'', opt_str (to self)),
      (''weight'', weight self),
      (''accessibility'', accessibility self),
      (''className'', class_name self),
      (''color'', color self),
      (''colorIndex'', color_index self),
      (''custom'', custom self),
      (''description'', description self),
      (''events'', events self),
      (''id'', id' self),
      (''labelrank'', label_rank self),
      (''name'', name self),
      (''selected'', selected self)]"

text \<open>
  \<^verbatim>\<open>DataBase.__init__\<close> and \<^verbatim>\<open>from_dict\<close> are inherited from classes that are not in
  these files; what they return for given keyword arguments, or for a given dict, is a
  parameter.
\<close>

record inherited =
  DataBase_init :: "pydict \<Rightarrow> error + data_base"
  from_dict :: "pydict \<Rightarrow> error + arc_diagram_data"

text \<open>Lines 22-31, \<^verbatim>\<open>ArcDiagramData(**kwargs)\<close>: the three setters run in order, then the
  constructor of the base class.\<close>

definition ArcDiagramData_init ::
  "validator_collection \<Rightarrow> inherited \<Rightarrow> pydict \<Rightarrow> error + arc_diagram_data"
where
  "ArcDiagramData_init vc base kwargs =
    (case validators_string vc (dget kwargs ''from_'') of
       Inl e \<Rightarrow> Inl e
     | Inr from_v \<Rightarrow>
        (case validators_string vc (dget kwargs ''to'') of
           Inl e \<Rightarrow> Inl e
         | Inr to_v \<Rightarrow>
            (case validators_numeric vc (dget kwargs ''weight'') of
               Inl e \<Rightarrow> Inl e
             | Inr weight_v \<Rightarrow>
                (case DataBase_init base kwargs of
                   Inl e \<Rightarrow> Inl e
                 | Inr b \<Rightarrow>
                    Inr (data_base.extend b
                           \<lparr>from' = from_v, to = to_v, weight = weight_v\<rparr>)))))"

text \<open>An element of the collection: an object taken over as it is, or a data point.\<close>

datatype data_point = As_given pyval | Data_point arc_diagram_data

text \<open>Lines 108-130, the body of the loop of \<^verbatim>\<open>from_list\<close> for one item.\<close>

definition from_list_item ::
  "validator_collection \<Rightarrow> inherited \<Rightarrow> pyval \<Rightarrow> error + data_point"
where
  "from_list_item vc base item =
    (if is_type item ''SinglePointData'' then Inr (As_given item)
     else if is_dict item then
       (case item of
          PDict d \<Rightarrow> map_sum id Data_point (from_dict base d)
        | _ \<Rightarrow> Inl TypeError)
     else if item = PNone \<or> is_type item ''EnforcedNullType'' then
       map_sum id Data_point (ArcDiagramData_init vc base [(''y'', PNone)])
     else if checkers_is_numeric vc item then
       map_sum id Data_point (ArcDiagramData_init vc base [(''y'', item)])
     else if is_iterable_forbid item then
       (case item of
          PList xs \<Rightarrow>
            if length xs = 3 then
              map_sum id Data_point
                (ArcDiagramData_init vc base
                   [(''from_'', xs ! 0), (''to'', xs ! 1), (''weight'', xs ! 2)])
            else Inl HighchartsValueError
        | _ \<Rightarrow> Inl HighchartsValueError)
     else Inl HighchartsValueError)"

text \<open>The loop: the first exception ends it.\<close>

fun from_list_items ::
  "(pyval \<Rightarrow> error + data_point) \<Rightarrow> pyval list \<Rightarrow> error + data_point list"
where
  "from_list_items f [] = Inr []"
| "from_list_items f (item # rest) =
    (case f item of
       Inl e \<Rightarrow> Inl e
     | Inr as_obj \<Rightarrow>
        (case from_list_items f rest of
           Inl e \<Rightarrow> Inl e
         | Inr collection \<Rightarrow> Inr (as_obj # collection)))"

text \<open>Lines 94-133, \<^verbatim>\<open>ArcDiagramData.from_list\<close>. \<open>value'\<close> is \<^verbatim>\<open>value\<close> after the
  reassignments of lines 98-104.\<close>

definition from_list ::
  "validator_collection \<Rightarrow> inherited \<Rightarrow> pyval \<Rightarrow> error + data_point list"
where
  "from_list vc base value =
    (if \<not> truthy value then Inr []
     else
       (let value' =
              (case value of
                 PStr s \<Rightarrow>
                   (case validators_json vc s of Some parsed \<Rightarrow> parsed | None \<Rightarrow> value)
               | _ \<Rightarrow> if \<not> is_iterable value then PList [value] else value)
        in case py_iter value' of
             Inl e \<Rightarrow> Inl e
           | Inr items \<Rightarrow> from_list_items (from_list_item vc base) items))"

text \<open>Lines 145-151.\<close>

definition get_supported_dimensions :: "nat list" where
  "get_supported_dimensions = [1, 3]"

section \<open>The validators of the validator-collection package\<close>

text \<open>
  The validator-collection package is not part of these files. The three functions
  below follow the package itself, on the values represented here:
  \<^item> \<^verbatim>\<open>validators.string(v, allow_empty = True)\<close> returns \<^verbatim>\<open>None\<close> for every value that
    is false in the sense of Python (\<^verbatim>\<open>None\<close>, the empty string, \<^verbatim>\<open>0\<close>, \<^verbatim>\<open>False\<close>, an empty
    list or dict), returns a string that is not empty as it is, and raises for every
    other value;
  \<^item> \<^verbatim>\<open>validators.numeric(v, allow_empty = True)\<close> returns \<^verbatim>\<open>None\<close> for \<^verbatim>\<open>None\<close>, returns a
    number or a bool as it is (\<^verbatim>\<open>bool\<close> is a subclass of \<^verbatim>\<open>int\<close>), returns \<^verbatim>\<open>float(v)\<close> for a
    string that \<^verbatim>\<open>float\<close> accepts, and raises for every other value;
  \<^item> \<^verbatim>\<open>checkers.is_numeric(v)\<close> holds when \<^verbatim>\<open>validators.numeric(v)\<close> returns, which it does
    not for \<^verbatim>\<open>None\<close>.

  \<open>float_of s\<close> is \<^verbatim>\<open>float(s)\<close>, with \<open>None\<close> when it raises; it is a parameter, as
  \<^verbatim>\<open>validators.json\<close> is.
\<close>

definition package_string :: "pyval \<Rightarrow> error + string option" where
  "package_string v =
     (if \<not> truthy v then Inr None
      else case v of PStr s \<Rightarrow> Inr (Some s) | _ \<Rightarrow> Inl ValidatorError)"

fun package_numeric :: "(string \<Rightarrow> pyval option) \<Rightarrow> pyval \<Rightarrow> error + pyval" where
  "package_numeric float_of PNone = Inr PNone"
| "package_numeric float_of (PStr s) =
     (case float_of s of Some x \<Rightarrow> Inr x | None \<Rightarrow> Inl ValidatorError)"
| "package_numeric float_of (PInt i) = Inr (PInt i)"
| "package_numeric float_of (PBool b) = Inr (PBool b)"
| "package_numeric float_of _ = Inl ValidatorError"

fun package_is_numeric :: "(string \<Rightarrow> pyval option) \<Rightarrow> pyval \<Rightarrow> bool" where
  "package_is_numeric float_of (PStr s) = (float_of s \<noteq> None)"
| "package_is_numeric float_of (PInt i) = True"
| "package_is_numeric float_of (PBool b) = True"
| "package_is_numeric float_of _ = False"

definition package_validators ::
  "(string \<Rightarrow> pyval option) \<Rightarrow> (string \<Rightarrow> pyval option) \<Rightarrow> validator_collection"
where
  "package_validators json float_of =
     \<lparr>validators_string = package_string,
      validators_numeric = package_numeric float_of,
      validators_json = json,
      checkers_is_numeric = package_is_numeric float_of\<rparr>"

section \<open>An instance of the inherited parts\<close>

text \<open>An instance of the inherited parts for evaluating \<^verbatim>\<open>from_list\<close> on concrete
  inputs: the constructor of the base class returns and leaves every inherited property
  at \<^verbatim>\<open>None\<close>; \<^verbatim>\<open>from_dict\<close>, which no input evaluated here reaches, raises.\<close>

definition no_properties :: data_base where
  "no_properties =
     \<lparr>accessibility = PNone, class_name = PNone, color = PNone, color_index = PNone,
      custom = PNone, description = PNone, events = PNone, id' = PNone,
      label_rank = PNone, name = PNone, selected = PNone\<rparr>"

definition plain_base :: inherited where
  "plain_base =
     \<lparr>DataBase_init = (\<lambda>kwargs. Inr no_properties), from_dict = (\<lambda>as_dict. Inl TypeError)\<rparr>"

section \<open>The recursion of the deep merge ends\<close>

lemma fold_max_ge: "(a::nat) \<le> fold max xs a"
  by (induction xs arbitrary: a) (auto intro: order_trans[OF max.cobounded2])

lemma fold_max_mem: "(x::nat) \<in> set xs \<Longrightarrow> x \<le> fold max xs a"
proof (induction xs arbitrary: a)
  case Nil then show ?case by simp
next
  case (Cons y ys)
  show ?case
  proof (cases "x = y")
    case True
    have "max y a \<le> fold max ys (max y a)" by (rule fold_max_ge)
    then show ?thesis using True by simp
  next
    case False
    then show ?thesis using Cons by simp
  qed
qed

lemma depth_list_item: "x \<in> set xs \<Longrightarrow> depth x < depth (PList xs)"
  using fold_max_mem[of "depth x" "map depth xs" 0] by (simp add: less_Suc_eq_le)

lemma depth_dict_value: "map_of d k = Some v \<Longrightarrow> depth v < depth (PDict d)"
proof -
  assume "map_of d k = Some v"
  then have "(k, v) \<in> set d" by (rule map_of_SomeD)
  then have "depth v \<in> set (map (\<lambda>kv. depth (snd kv)) d)" by force
  then have "depth v \<le> fold max (map (\<lambda>kv. depth (snd kv)) d) 0" by (rule fold_max_mem)
  then show ?thesis by (simp add: less_Suc_eq_le)
qed

lemma py_iter_depth:
  "py_iter v = Inr xs \<Longrightarrow> PDict d \<in> set xs \<Longrightarrow> depth (PDict d) < depth v"
  by (cases v) (auto simp: depth_list_item simp del: depth.simps)

lemma match_series_fst:
  "p \<in> set (fst (match_series eqv xs ys)) \<Longrightarrow> fst p \<in> set xs"
  by (induction xs arbitrary: p) (auto split: prod.splits option.splits)

lemma copy_subkeys_returns:
  "(\<And>acc k. k \<in> set ks \<Longrightarrow> f acc k \<noteq> None) \<Longrightarrow> copy_subkeys f ks new_value \<noteq> None"
proof (induction ks arbitrary: new_value)
  case Nil then show ?case by simp
next
  case (Cons k ks)
  have "f new_value k \<noteq> None" using Cons.prems by simp
  moreover have "\<And>acc. copy_subkeys f ks acc \<noteq> None" using Cons by simp
  ultimately show ?case by (auto split: option.splits sum.splits)
qed

lemma update_series_returns:
  "(\<And>d. PDict d \<in> fst ` set ms \<Longrightarrow> g d \<noteq> None) \<Longrightarrow> update_series g ms \<noteq> None"
proof (induction ms)
  case Nil then show ?case by simp
next
  case (Cons m ms)
  have rest: "update_series g ms \<noteq> None" using Cons by simp
  show ?case
  proof (cases "fst m")
    case (PDict d)
    then have "g d \<noteq> None" using Cons.prems[of d] by simp
    then show ?thesis using rest PDict by (auto split: option.splits sum.splits)
  qed simp_all
qed

lemma dict_branch_returns:
  "(\<And>subkey ov. call subkey d ov \<noteq> None) \<Longrightarrow> dict_branch call d other_value \<noteq> None"
  unfolding dict_branch_def
  using copy_subkeys_returns[of "map fst d" "\<lambda>new_value subkey. call subkey d other_value" "[]"]
  by (auto split: option.splits sum.splits)

lemma series_branch_returns:
  assumes "\<And>subkey d ov. depth (PDict d) < depth original_value \<Longrightarrow> call subkey d ov \<noteq> None"
  shows "series_branch eqv call original_value other_value \<noteq> None"
proof -
  have "update_series
          (\<lambda>original_item. copy_subkeys
              (\<lambda>new_item subkey. call subkey original_item (PDict new_item))
              (map fst original_item) [])
          (fst (match_series eqv xs ys)) \<noteq> None"
    if it: "py_iter original_value = Inr xs" for xs ys
  proof (rule update_series_returns)
    fix d assume "PDict d \<in> fst ` set (fst (match_series eqv xs ys))"
    then have "PDict d \<in> set xs" using match_series_fst by force
    then have "depth (PDict d) < depth original_value" using it py_iter_depth by blast
    then show "copy_subkeys (\<lambda>new_item subkey. call subkey d (PDict new_item)) (map fst d) [] \<noteq> None"
      using assms by (intro copy_subkeys_returns) blast
  qed
  then show ?thesis
    unfolding series_branch_def by (auto simp del: not_None_eq split: sum.splits option.splits)
qed

lemma leaf_branch_returns: "leaf_branch original_value other_value overwrite \<noteq> None"
  unfolding leaf_branch_def by (auto split: sum.splits)

lemma copy_dict_key_fuel_returns:
  "depth (PDict original) \<le> n \<Longrightarrow>
   copy_dict_key_fuel eqv n key original other overwrite preserve_data \<noteq> None"
proof (induction n arbitrary: key original other)
  case 0
  then show ?case by simp
next
  case (Suc n)
  show ?case
  proof (cases "map_of original key")
    case None
    then show ?thesis by simp
  next
    case (Some original_value)
    then have dv: "depth original_value \<le> n"
      using depth_dict_value[OF Some] Suc.prems by simp
    show ?thesis
    proof (cases "dict_get other key")
      case (Inl e)
      then show ?thesis using Some by simp
    next
      case (Inr other_value)
      have s: "series_branch eqv
                (\<lambda>subkey original_item new_item.
                   copy_dict_key_fuel eqv n subkey original_item new_item overwrite preserve_data)
                original_value other_value \<noteq> None"
        by (rule series_branch_returns, rule Suc.IH) (use dv in simp)
      have d: "dict_branch
                 (\<lambda>subkey original_value other_value.
                    copy_dict_key_fuel eqv n subkey original_value other_value overwrite preserve_data)
                 d other_value \<noteq> None" if "original_value = PDict d" for d
        by (rule dict_branch_returns, rule Suc.IH) (use dv that in simp)
      show ?thesis
        using Some Inr s d leaf_branch_returns[of original_value other_value overwrite]
        by (cases original_value) (auto simp del: depth.simps not_None_eq)
    qed
  qed
qed


lemma copy_subkeys_mono:
  "(\<And>acc k r. f acc k = Some r \<Longrightarrow> f' acc k = Some r) \<Longrightarrow>
   copy_subkeys f ks new_value = Some r \<Longrightarrow> copy_subkeys f' ks new_value = Some r"
proof (induction ks arbitrary: new_value)
  case Nil then show ?case by simp
next
  case (Cons k ks)
  from Cons.prems(2) obtain x where fx: "f new_value k = Some x"
    by (auto split: option.splits)
  then have fx': "f' new_value k = Some x" by (rule Cons.prems(1))
  show ?case
  proof (cases x)
    case (Inl e)
    then show ?thesis using fx fx' Cons.prems(2) by simp
  next
    case (Inr v)
    then have "copy_subkeys f ks (AList.update k v new_value) = Some r"
      using fx Cons.prems(2) by simp
    then have "copy_subkeys f' ks (AList.update k v new_value) = Some r"
      using Cons.IH Cons.prems(1) by blast
    then show ?thesis using fx' Inr by simp
  qed
qed

lemma update_series_mono:
  "(\<And>d r. g d = Some r \<Longrightarrow> g' d = Some r) \<Longrightarrow>
   update_series g ms = Some r \<Longrightarrow> update_series g' ms = Some r"
proof (induction ms arbitrary: r)
  case Nil then show ?case by simp
next
  case (Cons m ms)
  show ?case
  proof (cases "fst m")
    case (PDict d)
    from Cons.prems(2) PDict obtain x where gx: "g d = Some x"
      by (auto split: option.splits)
    then have gx': "g' d = Some x" by (rule Cons.prems(1))
    show ?thesis
    proof (cases x)
      case (Inl e)
      then show ?thesis using gx gx' PDict Cons.prems(2) by simp
    next
      case (Inr new_item)
      from Cons.prems(2) PDict gx Inr obtain y where uy: "update_series g ms = Some y"
        by (auto split: option.splits)
      then have uy': "update_series g' ms = Some y" using Cons.IH Cons.prems(1) by blast
      show ?thesis using Cons.prems(2) PDict gx gx' Inr uy uy' by simp
    qed
  qed (use Cons.prems(2) in simp_all)
qed

lemma dict_branch_mono:
  assumes "\<And>subkey ov r. call subkey d ov = Some r \<Longrightarrow> call' subkey d ov = Some r"
    and "dict_branch call d other_value = Some r"
  shows "dict_branch call' d other_value = Some r"
proof -
  from assms(2) obtain x where
    x: "copy_subkeys (\<lambda>new_value subkey. call subkey d other_value) (map fst d) [] = Some x"
    unfolding dict_branch_def by (auto split: option.splits)
  have "copy_subkeys (\<lambda>new_value subkey. call' subkey d other_value) (map fst d) [] = Some x"
    by (rule copy_subkeys_mono[OF _ x]) (rule assms(1))
  then show ?thesis using assms(2) x unfolding dict_branch_def by simp
qed

lemma series_branch_mono:
  assumes "\<And>subkey d ov r. call subkey d ov = Some r \<Longrightarrow> call' subkey d ov = Some r"
    and "series_branch eqv call original_value other_value = Some r"
  shows "series_branch eqv call' original_value other_value = Some r"
proof -
  have g: "copy_subkeys (\<lambda>new_item subkey. call' subkey d (PDict new_item)) (map fst d) [] = Some x"
    if "copy_subkeys (\<lambda>new_item subkey. call subkey d (PDict new_item)) (map fst d) [] = Some x"
    for d x
    by (rule copy_subkeys_mono[OF _ that]) (rule assms(1))
  have u: "update_series
          (\<lambda>original_item. copy_subkeys
              (\<lambda>new_item subkey. call' subkey original_item (PDict new_item))
              (map fst original_item) []) ms = Some y"
    if "update_series
          (\<lambda>original_item. copy_subkeys
              (\<lambda>new_item subkey. call subkey original_item (PDict new_item))
              (map fst original_item) []) ms = Some y" for ms y
    by (rule update_series_mono[OF _ that]) (rule g)
  show ?thesis
    using assms(2) unfolding series_branch_def
    by (auto split: sum.splits option.splits if_splits dest: u)
qed

lemma copy_dict_key_fuel_Suc:
  "copy_dict_key_fuel eqv n key original other overwrite preserve_data = Some r \<Longrightarrow>
   copy_dict_key_fuel eqv (Suc n) key original other overwrite preserve_data = Some r"
proof (induction n arbitrary: key original other r)
  case 0
  then show ?case by simp
next
  case (Suc n)
  show ?case
  proof (cases "map_of original key")
    case None
    then show ?thesis using Suc.prems by simp
  next
    case (Some original_value)
    show ?thesis
    proof (cases "dict_get other key")
      case (Inl e)
      have "copy_dict_key_fuel eqv m key original other overwrite preserve_data = Some (Inl e)"
        if "m \<noteq> 0" for m
        using that Some Inl by (cases m) simp_all
      from this[of "Suc n"] this[of "Suc (Suc n)"] show ?thesis using Suc.prems by simp
    next
      case (Inr other_value)
      have s: "series_branch eqv
                (\<lambda>subkey original_item new_item.
                   copy_dict_key_fuel eqv (Suc n) subkey original_item new_item overwrite preserve_data)
                original_value other_value = Some r"
        if "series_branch eqv
                (\<lambda>subkey original_item new_item.
                   copy_dict_key_fuel eqv n subkey original_item new_item overwrite preserve_data)
                original_value other_value = Some r"
        by (rule series_branch_mono[OF _ that]) (rule Suc.IH)
      have d: "dict_branch
                 (\<lambda>subkey original_value other_value.
                    copy_dict_key_fuel eqv (Suc n) subkey original_value other_value overwrite preserve_data)
                 d other_value = Some r"
        if "dict_branch
                 (\<lambda>subkey original_value other_value.
                    copy_dict_key_fuel eqv n subkey original_value other_value overwrite preserve_data)
                 d other_value = Some r" for d
        by (rule dict_branch_mono[OF _ that]) (rule Suc.IH)
      have unfold: "copy_dict_key_fuel eqv (Suc m) key original other overwrite preserve_data =
            (if key = ''data'' \<and> preserve_data then Some (Inr other_value)
             else if key = ''points'' \<and> preserve_data then Some (Inr other_value)
             else if key = ''series'' \<and> preserve_data then
               series_branch eqv
                 (\<lambda>subkey original_item new_item.
                    copy_dict_key_fuel eqv m subkey original_item new_item overwrite preserve_data)
                 original_value other_value
             else (case original_value of
                 PDict d \<Rightarrow>
                   dict_branch
                     (\<lambda>subkey original_value other_value.
                        copy_dict_key_fuel eqv m subkey original_value other_value
                          overwrite preserve_data)
                     d other_value
               | _ \<Rightarrow> leaf_branch original_value other_value overwrite))" for m
        using Some Inr by simp
      have now: "copy_dict_key_fuel eqv (Suc n) key original other overwrite preserve_data = Some r"
        by (rule Suc.prems)
      consider (kept) "key = ''data'' \<and> preserve_data \<or> key = ''points'' \<and> preserve_data"
        | (series) "\<not> (key = ''data'' \<and> preserve_data \<or> key = ''points'' \<and> preserve_data)"
            "key = ''series'' \<and> preserve_data"
        | (rest) "\<not> (key = ''data'' \<and> preserve_data \<or> key = ''points'' \<and> preserve_data)"
            "\<not> (key = ''series'' \<and> preserve_data)"
        by blast
      then show ?thesis
      proof cases
        case kept
        then show ?thesis using now unfold[of n] unfold[of "Suc n"] by auto
      next
        case series
        then show ?thesis using now s unfold[of n] unfold[of "Suc n"] by auto
      next
        case rest
        show ?thesis
        proof (cases original_value)
          case (PDict x)
          then show ?thesis using now rest d[of x] unfold[of n] unfold[of "Suc n"] by auto
        qed (use now rest unfold[of n] unfold[of "Suc n"] in auto)
      qed
    qed
  qed
qed

lemma copy_dict_key_fuel_mono:
  "copy_dict_key_fuel eqv n key original other overwrite preserve_data = Some r \<Longrightarrow> n \<le> m \<Longrightarrow>
   copy_dict_key_fuel eqv m key original other overwrite preserve_data = Some r"
  by (induction m) (auto simp: le_Suc_eq dest: copy_dict_key_fuel_Suc simp del: copy_dict_key_fuel.simps)

text \<open>
  C9. The deep merge terminates on every finite configuration tree: a call of
  \<^verbatim>\<open>_copy_dict_key\<close> returns or raises within as many levels of recursion as its
  original dict is deep, whatever the other dict is, because every recursive call is
  made on a dict value, or on a dict item of a list value, of the original dict. More
  levels than that change nothing in the outcome.
\<close>

theorem copy_dict_key_terminates:
  "depth (PDict original) \<le> n \<Longrightarrow>
   (\<exists>r. copy_dict_key eqv key original other overwrite preserve_data = Some r) \<and>
   copy_dict_key_fuel eqv n key original other overwrite preserve_data
     = copy_dict_key eqv key original other overwrite preserve_data"
proof -
  assume n: "depth (PDict original) \<le> n"
  have "copy_dict_key eqv key original other overwrite preserve_data \<noteq> None"
    unfolding copy_dict_key_def by (rule copy_dict_key_fuel_returns) simp
  then obtain r where r: "copy_dict_key eqv key original other overwrite preserve_data = Some r"
    by blast
  then have "copy_dict_key_fuel eqv n key original other overwrite preserve_data = Some r"
    unfolding copy_dict_key_def using n by (rule copy_dict_key_fuel_mono)
  then show ?thesis using r by simp
qed

theorem copy_dict_key_terminates_witness:
  "depth (PDict [(''chart'', PDict [(''type'', PStr ''line'')])]) \<le> 5 \<and>
   (\<exists>r. copy_dict_key (=) ''chart'' [(''chart'', PDict [(''type'', PStr ''line'')])]
          (PDict [(''chart'', PDict [])]) True True = Some r) \<and>
   copy_dict_key_fuel (=) 5 ''chart'' [(''chart'', PDict [(''type'', PStr ''line'')])]
          (PDict [(''chart'', PDict [])]) True True
     = copy_dict_key (=) ''chart'' [(''chart'', PDict [(''type'', PStr ''line'')])]
          (PDict [(''chart'', PDict [])]) True True"
proof -
  have h: "depth (PDict [(''chart'', PDict [(''type'', PStr ''line'')])]) \<le> 5" by simp
  show ?thesis
    using h copy_dict_key_terminates[OF h, of "(=)" "''chart''" "PDict [(''chart'', PDict [])]" True True]
    by blast
qed

section \<open>What the deep merge returns\<close>

lemma depth_dict_Suc: "depth (PDict d) = Suc (depth (PDict d) - 1)"
  by simp

lemma copy_dict_key_unfold:
  "copy_dict_key eqv key original other overwrite preserve_data =
    (case map_of original key of
       None \<Rightarrow> Some (Inl (KeyError key))
     | Some original_value \<Rightarrow>
        (case dict_get other key of
           Inl e \<Rightarrow> Some (Inl e)
         | Inr other_value \<Rightarrow>
            if key = ''data'' \<and> preserve_data then Some (Inr other_value)
            else if key = ''points'' \<and> preserve_data then Some (Inr other_value)
            else if key = ''series'' \<and> preserve_data then
              series_branch eqv
                (\<lambda>subkey original_item new_item.
                   copy_dict_key_fuel eqv (depth (PDict original) - 1) subkey original_item new_item
                     overwrite preserve_data)
                original_value other_value
            else
              (case original_value of
                 PDict d \<Rightarrow>
                   dict_branch
                     (\<lambda>subkey original_value other_value.
                        copy_dict_key_fuel eqv (depth (PDict original) - 1) subkey original_value
                          other_value overwrite preserve_data)
                     d other_value
               | _ \<Rightarrow> leaf_branch original_value other_value overwrite)))"
  unfolding copy_dict_key_def
  by (subst depth_dict_Suc) (simp only: copy_dict_key_fuel.simps)

lemma copy_dict_key_missing:
  "map_of original key = None \<Longrightarrow>
   copy_dict_key eqv key original other overwrite preserve_data = Some (Inl (KeyError key))"
  by (simp add: copy_dict_key_unfold)

lemma copy_dict_key_kept:
  "map_of original key = Some original_value \<Longrightarrow> key = ''data'' \<or> key = ''points'' \<Longrightarrow>
   copy_dict_key eqv key original (PDict other) overwrite True = Some (Inr (dget other key))"
  by (erule disjE; simp add: copy_dict_key_unfold dget_def)

lemma copy_dict_key_leaf:
  assumes "map_of original key = Some original_value" and "\<not> is_dict original_value"
    and "\<not> (preserve_data \<and> (key = ''data'' \<or> key = ''points'' \<or> key = ''series''))"
  shows "copy_dict_key eqv key original (PDict other) overwrite preserve_data
     = leaf_branch original_value (dget other key) overwrite"
proof -
  have c: "\<not> (key = ''data'' \<and> preserve_data)" "\<not> (key = ''points'' \<and> preserve_data)"
    "\<not> (key = ''series'' \<and> preserve_data)"
    using assms(3) by blast+
  have "copy_dict_key eqv key original (PDict other) overwrite preserve_data =
      (case original_value of
                 PDict d \<Rightarrow>
                   dict_branch
                     (\<lambda>subkey original_value other_value.
                        copy_dict_key_fuel eqv (depth (PDict original) - 1) subkey original_value
                          other_value overwrite preserve_data)
                     d (dget other key)
               | _ \<Rightarrow> leaf_branch original_value (dget other key) overwrite)"
    unfolding copy_dict_key_unfold[of eqv key original "PDict other"]
    by (simp only: assms(1) option.case dict_get.simps sum.case c if_False dget_def)
  then show ?thesis using assms(2) by (cases original_value) simp_all
qed

text \<open>
  C3. For the keys \<^verbatim>\<open>'data'\<close> and \<^verbatim>\<open>'points'\<close> a call returns the value of its \<^verbatim>\<open>other\<close>
  argument (lemma \<open>copy_dict_key_kept\<close>), but the merge does not leave the data of the
  other chart unchanged: for an original chart with two series and another chart that
  has the first of them, the series branch passes the new, empty item as \<^verbatim>\<open>other\<close> and
  never reads the matched item of the other chart, so the merged first series has
  \<^verbatim>\<open>None\<close> as its data in place of the array \<^verbatim>\<open>[1, 2]\<close>.
\<close>

theorem matched_series_item_loses_data:
  "copy_dict_key (=) ''series''
     [(''series'',
       PList [PDict [(''name'', PStr ''a''), (''data'', PList [PInt 1, PInt 2])],
              PDict [(''name'', PStr ''b''), (''data'', PList [PInt 3])]])]
     (PDict
       [(''series'',
         PList [PDict [(''name'', PStr ''a''), (''data'', PList [PInt 1, PInt 2])]])])
     True True
   = Some (Inr (PList [PDict [(''name'', PStr ''a''), (''data'', PNone)],
                       PDict [(''name'', PStr ''b''), (''data'', PList [PInt 3])]]))"
  by (simp add: copy_dict_key_unfold series_branch_def leaf_branch_def)

text \<open>For the key \<^verbatim>\<open>'series'\<close> and two lists of the same length that are not empty, the
  call returns \<^verbatim>\<open>None\<close>.\<close>

lemma series_same_length:
  "map_of original ''series'' = Some (PList xs) \<Longrightarrow>
   map_of other ''series'' = Some (PList ys) \<Longrightarrow>
   xs \<noteq> [] \<Longrightarrow> length ys = length xs \<Longrightarrow>
   copy_dict_key eqv ''series'' original (PDict other) overwrite True = Some (Inr PNone)"
proof -
  assume a: "map_of original ''series'' = Some (PList xs)" "map_of other ''series'' = Some (PList ys)"
    "xs \<noteq> []" "length ys = length xs"
  then have "ys \<noteq> []" by auto
  with a show ?thesis by (simp add: copy_dict_key_unfold series_branch_def)
qed

text \<open>
  C1. For the key \<^verbatim>\<open>'series'\<close> with \<^verbatim>\<open>preserve_data\<close> true, an original list of one series
  and another list of one series: the lengths are equal, no \<^verbatim>\<open>return\<close> statement is
  reached, and the call returns \<^verbatim>\<open>None\<close>, not a list reconciling the two.
\<close>

theorem series_same_length_returns_None:
  "copy_dict_key eqv ''series'' [(''series'', PList [PDict [(''name'', PStr ''a'')]])]
     (PDict [(''series'', PList [PDict [(''name'', PStr ''b'')]])]) overwrite True
   = Some (Inr PNone)"
  by (simp add: copy_dict_key_unfold series_branch_def)

text \<open>For a key that is not kept for its data, an original dict value with an entry,
  and another dict whose value for the key is not a dict (or is missing), the call
  raises \<^verbatim>\<open>AttributeError\<close>.\<close>

lemma missing_subtree:
  assumes "map_of original key = Some (PDict d)" and "d \<noteq> []"
    and "\<not> is_dict (dget other key)"
    and "\<not> (preserve_data \<and> (key = ''data'' \<or> key = ''points'' \<or> key = ''series''))"
  shows "copy_dict_key eqv key original (PDict other) overwrite preserve_data
     = Some (Inl AttributeError)"
proof -
  obtain k v rest where d: "d = (k, v) # rest" using assms(2) by (cases d) auto
  have "depth (PDict d) < depth (PDict original)" using assms(1) by (rule depth_dict_value)
  moreover have "0 < depth (PDict d)" by simp
  ultimately have "1 < depth (PDict original)" by linarith
  then obtain m where m: "depth (PDict original) - 1 = Suc m"
    by (cases "depth (PDict original) - 1") (simp_all del: depth.simps)
  have ng: "dict_get (dget other key) k = Inl AttributeError"
    using assms(3) by (cases "dget other key") simp_all
  have first: "copy_dict_key_fuel eqv (Suc m) k d (dget other key) overwrite preserve_data
      = Some (Inl AttributeError)"
    using ng by (simp add: d)
  have c: "\<not> (key = ''data'' \<and> preserve_data)" "\<not> (key = ''points'' \<and> preserve_data)"
    "\<not> (key = ''series'' \<and> preserve_data)"
    using assms(4) by blast+
  have "copy_dict_key eqv key original (PDict other) overwrite preserve_data =
      dict_branch
        (\<lambda>subkey original_value other_value.
           copy_dict_key_fuel eqv (depth (PDict original) - 1) subkey original_value
             other_value overwrite preserve_data)
        d (dget other key)"
    unfolding copy_dict_key_unfold[of eqv key original "PDict other"]
    by (simp only: assms(1) option.case dict_get.simps sum.case c if_False dget_def pyval.case)
  also have "\<dots> = Some (Inl AttributeError)"
    unfolding dict_branch_def m using first by (simp add: d del: copy_dict_key_fuel.simps)
  finally show ?thesis .
qed

text \<open>
  C2. For a key whose original value is a dict with an entry, and another dict that
  lacks the key: \<^verbatim>\<open>other_value\<close> is \<^verbatim>\<open>None\<close>, the recursive call evaluates
  \<^verbatim>\<open>None.get(...)\<close>, and \<^verbatim>\<open>AttributeError\<close> is raised.
\<close>

theorem missing_subtree_raises:
  "copy_dict_key eqv ''chart'' [(''chart'', PDict [(''type'', PStr ''line'')])] (PDict [])
     overwrite preserve_data
   = Some (Inl AttributeError)"
  by (simp add: copy_dict_key_unfold dict_branch_def)

text \<open>For a scalar leaf under a key that is not kept for its data, the call returns the
  value of the other dict when that value is true in the sense of Python and
  \<^verbatim>\<open>overwrite\<close> is false, and the original value otherwise.\<close>

lemma leaf_overwrite_policy:
  assumes "map_of original key = Some original_value"
    and "\<not> is_dict original_value" and "\<not> is_iterable_forbid original_value"
    and "\<not> (preserve_data \<and> (key = ''data'' \<or> key = ''points'' \<or> key = ''series''))"
  shows "copy_dict_key eqv key original (PDict other) overwrite preserve_data
     = Some (Inr (if truthy (dget other key) \<and> \<not> overwrite then dget other key
                  else original_value))"
  unfolding copy_dict_key_leaf[OF assms(1,2,4)] leaf_branch_def using assms(3) by simp

text \<open>
  C4. With \<^verbatim>\<open>overwrite\<close> false, an original dict \<^verbatim>\<open>{'enabled': True}\<close> and another dict
  \<^verbatim>\<open>{'enabled': False}\<close>: the other dict has a value set for the key, but line 355 tests
  the truth value of that value, and the call returns the original \<^verbatim>\<open>True\<close>, which
  overwrites the value that was set.
\<close>

theorem set_falsy_value_is_overwritten:
  "copy_dict_key eqv ''enabled'' [(''enabled'', PBool True)] (PDict [(''enabled'', PBool False)])
      False preserve_data = Some (Inr (PBool True))"
  by (simp add: copy_dict_key_unfold leaf_branch_def)

section \<open>The chart and the export server\<close>

text \<open>
  C5. Whatever the chart, \<^verbatim>\<open>download_chart\<close> calls \<^verbatim>\<open>ExportServer.get_chart\<close> with the
  file name, the two credentials, the timeout and the caller's keyword arguments when no
  server instance is given, and \<^verbatim>\<open>request_chart\<close> of a given server instance with the
  file name, the two credentials and the timeout: the chart and its options are not
  among the arguments of either call.
\<close>

theorem download_chart_arguments:
  "download_chart self filename auth_user auth_password timeout PNone kwargs
     = Inr (Get_chart filename auth_user auth_password timeout kwargs) \<and>
   download_chart self filename auth_user auth_password timeout (PObj ''ExportServer'' ident) kwargs
     = Inr (Request_chart (PObj ''ExportServer'' ident) filename auth_user auth_password timeout)"
  by (simp add: download_chart_def)

section \<open>The JavaScript literal of a chart\<close>

text \<open>The string returned for every chart with a container and options and without a
  callback.\<close>

lemma to_js_literal_container_options:
  "container self = Some s \<Longrightarrow> s \<noteq> [] \<Longrightarrow> truthy (options self) \<Longrightarrow> \<not> truthy (callback self) \<Longrightarrow>
   fst (to_js_literal js self filename files)
   = (if truthy (opt_str (variable_name self))
      then ''var '' @ the (variable_name self) @ '' = '' else [])
     @ ''new Highcharts.chart(renderTo = '' @ quote @ s @ quote @ '','' @ newline
     @ ''options = '' @ js (options self) @ '','' @ newline @ '');''"
  by (simp add: to_js_literal_def Let_def)

text \<open>
  C6. For a chart with a container and options and without a callback,
  \<^verbatim>\<open>to_js_literal\<close> returns a string in which the separator \<^verbatim>\<open>,\n\<close> stands immediately
  before the closing \<^verbatim>\<open>);\<close>.
\<close>

theorem to_js_literal_trailing_separator:
  "fst (to_js_literal js
          \<lparr>callback = PNone, container = Some ''target'',
           options = PObj ''HighchartsOptions'' ''o'', variable_name = None\<rparr>
          None files)
   = ''new Highcharts.chart(renderTo = '' @ quote @ ''target'' @ quote @ '','' @ newline
       @ ''options = '' @ js (PObj ''HighchartsOptions'' ''o'') @ '','' @ newline @ '');''"
  by (simp add: to_js_literal_def Let_def quote_def newline_def)

section \<open>Serialization and deserialization\<close>

lemma dget_Cons: "dget ((k, v) # d) key = (if k = key then v else dget d key)"
  by (simp add: dget_def)

lemma dget_Nil: "dget [] key = PNone"
  by (simp add: dget_def)

lemma set_container_not_empty:
  "set_container (package_validators json float_of) c0 v = Inr c \<Longrightarrow> container c \<noteq> Some []"
  by (cases v)
     (auto simp: set_container_def package_validators_def package_string_def split: if_splits)

text \<open>
  C7, as amended. \<^verbatim>\<open>_get_kwargs_from_dict\<close> applied to the output of \<^verbatim>\<open>_to_untrimmed_dict\<close>
  recovers the values of the fields that \<^verbatim>\<open>_to_untrimmed_dict\<close> writes, under the renamed
  keys: for a data point all fourteen properties (\<^verbatim>\<open>'from'\<close> as \<^verbatim>\<open>'from_'\<close>, \<^verbatim>\<open>'className'\<close>
  as \<^verbatim>\<open>'class_name'\<close>, \<^verbatim>\<open>'colorIndex'\<close> as \<^verbatim>\<open>'color_index'\<close>, \<^verbatim>\<open>'labelrank'\<close> as
  \<^verbatim>\<open>'label_rank'\<close>); for a chart, whose container is what the setter stored, the callback,
  the container and the options, written as \<^verbatim>\<open>'userOptions'\<close> and read back as
  \<^verbatim>\<open>'options'\<close>. \<^verbatim>\<open>variable_name\<close> is read by \<^verbatim>\<open>_get_kwargs_from_dict\<close> but not written by
  \<^verbatim>\<open>_to_untrimmed_dict\<close>, and comes back as \<^verbatim>\<open>None\<close>. A dict without a true \<^verbatim>\<open>'container'\<close>
  entry gives its \<^verbatim>\<open>'renderTo'\<close> entry as \<^verbatim>\<open>'container'\<close>.
\<close>

theorem kwargs_of_untrimmed_dict:
  "ArcDiagramData_get_kwargs_from_dict (ArcDiagramData_to_untrimmed_dict self) =
     [(''accessibility'', accessibility self),
      (''class_name'', class_name self),
      (''color'', color self),
      (''color_index'', color_index self),
      (''custom'', custom self),
      (''description'', description self),
      (''events'', events self),
      (''id'', id' self),
      (''label_rank'', label_rank self),
      (''name'', name self),
      (''selected'', selected self),
      (''from_'', opt_str (from' self)),
      (''to'', opt_str (to self)),
      (''weight'', weight self)] \<and>
   (set_container (package_validators json float_of) c0 v = Inr c \<longrightarrow>
      Chart_get_kwargs_from_dict (Chart_to_untrimmed_dict c) =
        [(''callback'', callback c),
         (''container'', opt_str (container c)),
         (''options'', options c),
         (''variable_name'', PNone)]) \<and>
   (\<not> truthy (dget as_dict ''container'') \<longrightarrow>
      map_of (Chart_get_kwargs_from_dict as_dict) ''container'' = Some (dget as_dict ''renderTo''))"
proof (intro conjI impI)
  show "ArcDiagramData_get_kwargs_from_dict (ArcDiagramData_to_untrimmed_dict self) =
     [(''accessibility'', accessibility self),
      (''class_name'', class_name self),
      (''color'', color self),
      (''color_index'', color_index self),
      (''custom'', custom self),
      (''description'', description self),
      (''events'', events self),
      (''id'', id' self),
      (''label_rank'', label_rank self),
      (''name'', name self),
      (''selected'', selected self),
      (''from_'', opt_str (from' self)),
      (''to'', opt_str (to self)),
      (''weight'', weight self)]"
    by (simp add: ArcDiagramData_get_kwargs_from_dict_def ArcDiagramData_to_untrimmed_dict_def
          dget_Cons dget_Nil)
next
  assume "set_container (package_validators json float_of) c0 v = Inr c"
  then have "container c \<noteq> Some []" by (rule set_container_not_empty)
  then have "py_or (opt_str (container c)) PNone = opt_str (container c)"
    by (cases "container c") (simp_all add: py_or_def)
  then show "Chart_get_kwargs_from_dict (Chart_to_untrimmed_dict c) =
        [(''callback'', callback c),
         (''container'', opt_str (container c)),
         (''options'', options c),
         (''variable_name'', PNone)]"
    by (simp add: Chart_get_kwargs_from_dict_def Chart_to_untrimmed_dict_def dget_Cons dget_Nil)
       (simp add: py_or_def)
next
  assume "\<not> truthy (dget as_dict ''container'')"
  then show "map_of (Chart_get_kwargs_from_dict as_dict) ''container'' = Some (dget as_dict ''renderTo'')"
    by (simp add: Chart_get_kwargs_from_dict_def py_or_def)
qed

theorem kwargs_of_untrimmed_dict_witness:
  "ArcDiagramData_get_kwargs_from_dict
     (ArcDiagramData_to_untrimmed_dict
        (data_base.extend (no_properties\<lparr>class_name := PStr ''link'', label_rank := PInt 2\<rparr>)
           \<lparr>from' = Some ''a'', to = Some ''b'', weight = PInt 3\<rparr>))
     = [(''accessibility'', PNone), (''class_name'', PStr ''link''), (''color'', PNone),
        (''color_index'', PNone), (''custom'', PNone), (''description'', PNone),
        (''events'', PNone), (''id'', PNone), (''label_rank'', PInt 2), (''name'', PNone),
        (''selected'', PNone), (''from_'', PStr ''a''), (''to'', PStr ''b''),
        (''weight'', PInt 3)] \<and>
   set_container (package_validators (\<lambda>s. None) (\<lambda>s. None))
     \<lparr>callback = PObj ''CallbackFunction'' ''f'', container = None,
      options = PObj ''HighchartsOptions'' ''o'', variable_name = None\<rparr> (PStr ''target'')
     = Inr \<lparr>callback = PObj ''CallbackFunction'' ''f'', container = Some ''target'',
            options = PObj ''HighchartsOptions'' ''o'', variable_name = None\<rparr> \<and>
   Chart_get_kwargs_from_dict
     (Chart_to_untrimmed_dict
        \<lparr>callback = PObj ''CallbackFunction'' ''f'', container = Some ''target'',
         options = PObj ''HighchartsOptions'' ''o'', variable_name = None\<rparr>)
     = [(''callback'', PObj ''CallbackFunction'' ''f''), (''container'', PStr ''target''),
        (''options'', PObj ''HighchartsOptions'' ''o''), (''variable_name'', PNone)] \<and>
   map_of (Chart_get_kwargs_from_dict [(''renderTo'', PStr ''target'')]) ''container''
     = Some (PStr ''target'')"
proof -
  let ?before = "\<lparr>callback = PObj ''CallbackFunction'' ''f'', container = None,
      options = PObj ''HighchartsOptions'' ''o'', variable_name = None\<rparr>"
  let ?after = "\<lparr>callback = PObj ''CallbackFunction'' ''f'', container = Some ''target'',
      options = PObj ''HighchartsOptions'' ''o'', variable_name = None\<rparr>"
  have assigned: "set_container (package_validators (\<lambda>s. None) (\<lambda>s. None)) ?before (PStr ''target'')
      = Inr ?after"
    by (simp add: set_container_def package_validators_def package_string_def)
  have nc: "\<not> truthy (dget [(''renderTo'', PStr ''target'')] ''container'')"
    by (simp add: dget_def)
  note inst = kwargs_of_untrimmed_dict[where self =
      "data_base.extend (no_properties\<lparr>class_name := PStr ''link'', label_rank := PInt 2\<rparr>)
           \<lparr>from' = Some ''a'', to = Some ''b'', weight = PInt 3\<rparr>"
      and json = "\<lambda>s. None" and float_of = "\<lambda>s. None" and ?c0.0 = ?before and v = "PStr ''target''"
      and c = ?after and as_dict = "[(''renderTo'', PStr ''target'')]"]
  show ?thesis
    using inst assigned nc
    by (simp add: no_properties_def data_base.extend_def dget_def)
qed

theorem variable_name_counterexample:
  "map_of
     (Chart_get_kwargs_from_dict
        (Chart_to_untrimmed_dict
           \<lparr>callback = PNone, container = Some ''target'', options = PNone,
            variable_name = Some ''chart1''\<rparr>))
     ''variable_name'' = Some PNone \<and>
   opt_str (variable_name
      \<lparr>callback = PNone, container = Some ''target'', options = PNone,
       variable_name = Some ''chart1''\<rparr>) = PStr ''chart1''"
  by (simp add: Chart_get_kwargs_from_dict_def Chart_to_untrimmed_dict_def dget_def py_or_def)

section \<open>Validation by the property setters\<close>

text \<open>
  C8, as amended. The setter of \<^verbatim>\<open>Chart.container\<close> stores \<^verbatim>\<open>None\<close> for every value that is
  false in the sense of Python, whether a string or not, stores a string that is not
  empty, and raises an error for every other value. The setter of
  \<^verbatim>\<open>ArcDiagramData.weight\<close> stores \<^verbatim>\<open>None\<close>, a number or a bool as it is, stores the number
  that \<^verbatim>\<open>float\<close> gives for a string, and raises an error for a string that \<^verbatim>\<open>float\<close> does
  not accept and for every other value. With any validators, after a successful
  assignment the getter returns the validated value.
\<close>

theorem setters_validate:
  "(\<not> truthy value \<longrightarrow>
      set_container (package_validators json float_of) self value
        = Inr (self\<lparr>container := None\<rparr>)) \<and>
   (s \<noteq> [] \<longrightarrow>
      set_container (package_validators json float_of) self (PStr s)
        = Inr (self\<lparr>container := Some s\<rparr>)) \<and>
   (truthy value \<and> \<not> is_string value \<longrightarrow>
      set_container (package_validators json float_of) self value = Inl ValidatorError) \<and>
   set_weight (package_validators json float_of) point PNone = Inr (point\<lparr>weight := PNone\<rparr>) \<and>
   set_weight (package_validators json float_of) point (PInt i)
     = Inr (point\<lparr>weight := PInt i\<rparr>) \<and>
   set_weight (package_validators json float_of) point (PBool b)
     = Inr (point\<lparr>weight := PBool b\<rparr>) \<and>
   (float_of s = Some x \<longrightarrow>
      set_weight (package_validators json float_of) point (PStr s)
        = Inr (point\<lparr>weight := x\<rparr>)) \<and>
   (float_of s = None \<longrightarrow>
      set_weight (package_validators json float_of) point (PStr s) = Inl ValidatorError) \<and>
   (value \<noteq> PNone \<and> \<not> is_string value \<and> \<not> package_is_numeric float_of value \<longrightarrow>
      set_weight (package_validators json float_of) point value = Inl ValidatorError) \<and>
   (set_container vc self value = Inr self' \<longrightarrow>
      validators_string vc value = Inr (get_container self')) \<and>
   (set_weight vc point value = Inr point' \<longrightarrow>
      validators_numeric vc value = Inr (get_weight point'))"
proof (intro conjI impI)
  show "set_container vc self value = Inr self' \<Longrightarrow>
      validators_string vc value = Inr (get_container self')"
    by (auto simp: set_container_def get_container_def split: sum.splits)
  show "set_weight vc point value = Inr point' \<Longrightarrow>
      validators_numeric vc value = Inr (get_weight point')"
    by (auto simp: set_weight_def get_weight_def split: sum.splits)
  show "truthy value \<and> \<not> is_string value \<Longrightarrow>
      set_container (package_validators json float_of) self value = Inl ValidatorError"
    by (cases "value") (simp_all add: set_container_def package_validators_def package_string_def)
  show "value \<noteq> PNone \<and> \<not> is_string value \<and> \<not> package_is_numeric float_of value \<Longrightarrow>
      set_weight (package_validators json float_of) point value = Inl ValidatorError"
    by (cases "value") (simp_all add: set_weight_def package_validators_def)
  show "\<not> truthy value \<Longrightarrow>
      set_container (package_validators json float_of) self value = Inr (self\<lparr>container := None\<rparr>)"
    by (simp add: set_container_def package_validators_def package_string_def)
qed (simp_all add: set_container_def set_weight_def package_validators_def package_string_def)

theorem setters_validate_witness:
  "set_container (package_validators (\<lambda>s. None) (\<lambda>s. if s = ''3'' then Some (PInt 3) else None))
      \<lparr>callback = PNone, container = Some ''old'', options = PNone, variable_name = None\<rparr> (PStr [])
     = Inr \<lparr>callback = PNone, container = None, options = PNone, variable_name = None\<rparr> \<and>
   set_container (package_validators (\<lambda>s. None) (\<lambda>s. if s = ''3'' then Some (PInt 3) else None))
      \<lparr>callback = PNone, container = Some ''old'', options = PNone, variable_name = None\<rparr>
      (PStr ''target'')
     = Inr \<lparr>callback = PNone, container = Some ''target'', options = PNone, variable_name = None\<rparr> \<and>
   get_container \<lparr>callback = PNone, container = Some ''target'', options = PNone, variable_name = None\<rparr>
     = Some ''target'' \<and>
   set_container (package_validators (\<lambda>s. None) (\<lambda>s. if s = ''3'' then Some (PInt 3) else None))
      \<lparr>callback = PNone, container = Some ''old'', options = PNone, variable_name = None\<rparr> (PInt 5)
     = Inl ValidatorError \<and>
   set_weight (package_validators (\<lambda>s. None) (\<lambda>s. if s = ''3'' then Some (PInt 3) else None))
      (data_base.extend no_properties \<lparr>from' = None, to = None, weight = PNone\<rparr>) (PStr ''3'')
     = Inr (data_base.extend no_properties \<lparr>from' = None, to = None, weight = PInt 3\<rparr>) \<and>
   get_weight (data_base.extend no_properties \<lparr>from' = None, to = None, weight = PInt 3\<rparr>) = PInt 3 \<and>
   set_weight (package_validators (\<lambda>s. None) (\<lambda>s. if s = ''3'' then Some (PInt 3) else None))
      (data_base.extend no_properties \<lparr>from' = None, to = None, weight = PNone\<rparr>) (PStr ''heavy'')
     = Inl ValidatorError \<and>
   set_weight (package_validators (\<lambda>s. None) (\<lambda>s. if s = ''3'' then Some (PInt 3) else None))
      (data_base.extend no_properties \<lparr>from' = None, to = None, weight = PNone\<rparr>) (PList [PInt 1])
     = Inl ValidatorError"
proof -
  let ?P = "package_validators (\<lambda>s. None) (\<lambda>s. if s = ''3'' then Some (PInt 3) else None)"
  let ?c = "\<lparr>callback = PNone, container = Some ''old'', options = PNone, variable_name = None\<rparr>"
  let ?p = "data_base.extend no_properties \<lparr>from' = None, to = None, weight = PNone\<rparr>"
  note a = setters_validate[of "PStr []" "\<lambda>s. None" "\<lambda>s. if s = ''3'' then Some (PInt 3) else None"
      ?c "''target''" ?p 3 True "PInt 3"]
  note b = setters_validate[of "PInt 5" "\<lambda>s. None" "\<lambda>s. if s = ''3'' then Some (PInt 3) else None"
      ?c "''3''" ?p 3 True "PInt 3"]
  note c = setters_validate[of "PList [PInt 1]" "\<lambda>s. None"
      "\<lambda>s. if s = ''3'' then Some (PInt 3) else None" ?c "''heavy''" ?p 3 True "PInt 3"]
  show ?thesis
    using a b c
    by (simp add: get_container_def get_weight_def data_base.extend_def no_properties_def)
qed

theorem setters_validate_counterexample:
  "set_container (package_validators (\<lambda>s. None) (\<lambda>s. if s = ''3'' then Some (PInt 3) else None))
      \<lparr>callback = PNone, container = Some ''old'', options = PNone, variable_name = None\<rparr> (PInt 0)
     = Inr \<lparr>callback = PNone, container = None, options = PNone, variable_name = None\<rparr> \<and>
   set_container (package_validators (\<lambda>s. None) (\<lambda>s. if s = ''3'' then Some (PInt 3) else None))
      \<lparr>callback = PNone, container = Some ''old'', options = PNone, variable_name = None\<rparr> (PList [])
     = Inr \<lparr>callback = PNone, container = None, options = PNone, variable_name = None\<rparr> \<and>
   set_weight (package_validators (\<lambda>s. None) (\<lambda>s. if s = ''3'' then Some (PInt 3) else None))
      (data_base.extend no_properties \<lparr>from' = None, to = None, weight = PNone\<rparr>) (PStr ''3'')
     = Inr (data_base.extend no_properties \<lparr>from' = None, to = None, weight = PInt 3\<rparr>)"
  by (simp add: set_container_def set_weight_def package_validators_def package_string_def
        data_base.extend_def no_properties_def)

section \<open>Data points from a list\<close>

lemma from_list_falsy: "\<not> truthy value \<Longrightarrow> from_list vc base value = Inr []"
  by (simp add: from_list_def)

lemma from_list_list:
  "from_list vc base (PList items) = from_list_items (from_list_item vc base) items"
  by (cases items) (simp_all add: from_list_def)

lemma from_list_items_all:
  "length ps = length items \<Longrightarrow> (\<forall>i<length items. f (items ! i) = Inr (ps ! i)) \<Longrightarrow>
   from_list_items f items = Inr ps"
proof (induction items arbitrary: ps)
  case Nil
  then show ?case by simp
next
  case (Cons item rest)
  then obtain p qs where ps: "ps = p # qs" by (cases ps) auto
  have head: "f item = Inr p" using Cons.prems(2) ps by auto
  have "\<forall>i<length rest. f (rest ! i) = Inr (qs ! i)"
    using Cons.prems(2) ps by auto
  then have "from_list_items f rest = Inr qs" using Cons.IH Cons.prems(1) ps by simp
  then show ?case using head ps by simp
qed

lemma from_list_items_first_error:
  "i < length items \<Longrightarrow> (\<forall>j<i. \<exists>p. f (items ! j) = Inr p) \<Longrightarrow> f (items ! i) = Inl e \<Longrightarrow>
   from_list_items f items = Inl e"
proof (induction items arbitrary: i)
  case Nil
  then show ?case by simp
next
  case (Cons item rest)
  show ?case
  proof (cases i)
    case 0
    then show ?thesis using Cons.prems(3) by simp
  next
    case (Suc k)
    then obtain p where head: "f item = Inr p" using Cons.prems(2) by auto
    have "\<forall>j<k. \<exists>p. f (rest ! j) = Inr p"
      using Cons.prems(2) Suc by auto
    then have "from_list_items f rest = Inl e"
      using Cons.IH[of k] Cons.prems(1,3) Suc by simp
    then show ?thesis using head by simp
  qed
qed

lemma from_list_item_null:
  "item = PNone \<or> is_type item ''EnforcedNullType'' \<Longrightarrow>
   from_list_item vc base item
     = map_sum id Data_point (ArcDiagramData_init vc base [(''y'', PNone)])"
  by (cases item) (auto simp: from_list_item_def)

lemma from_list_item_numeric:
  "checkers_is_numeric vc item \<Longrightarrow> \<not> is_type item ''SinglePointData'' \<Longrightarrow> \<not> is_dict item \<Longrightarrow>
   item \<noteq> PNone \<Longrightarrow> \<not> is_type item ''EnforcedNullType'' \<Longrightarrow>
   from_list_item vc base item
     = map_sum id Data_point (ArcDiagramData_init vc base [(''y'', item)])"
  by (simp add: from_list_item_def)

lemma from_list_item_three:
  "\<not> checkers_is_numeric vc (PList xs) \<Longrightarrow> length xs = 3 \<Longrightarrow>
   from_list_item vc base (PList xs)
     = map_sum id Data_point
         (ArcDiagramData_init vc base
            [(''from_'', xs ! 0), (''to'', xs ! 1), (''weight'', xs ! 2)])"
  by (simp add: from_list_item_def)

lemma from_list_item_other_length:
  "\<not> checkers_is_numeric vc (PList xs) \<Longrightarrow> length xs \<noteq> 3 \<Longrightarrow>
   from_list_item vc base (PList xs) = Inl HighchartsValueError"
  by (simp add: from_list_item_def)

lemma from_list_item_not_coercible:
  "\<not> is_type item ''SinglePointData'' \<Longrightarrow> \<not> is_dict item \<Longrightarrow> item \<noteq> PNone \<Longrightarrow>
   \<not> is_type item ''EnforcedNullType'' \<Longrightarrow> \<not> checkers_is_numeric vc item \<Longrightarrow>
   \<not> is_iterable_forbid item \<Longrightarrow>
   from_list_item vc base item = Inl HighchartsValueError"
  by (simp add: from_list_item_def)

lemma init_accepted:
  "validators_string vc (dget kwargs ''from_'') = Inr from_v \<Longrightarrow>
   validators_string vc (dget kwargs ''to'') = Inr to_v \<Longrightarrow>
   validators_numeric vc (dget kwargs ''weight'') = Inr weight_v \<Longrightarrow>
   DataBase_init base kwargs = Inr b \<Longrightarrow>
   ArcDiagramData_init vc base kwargs
     = Inr (data_base.extend b \<lparr>from' = from_v, to = to_v, weight = weight_v\<rparr>)"
  by (simp add: ArcDiagramData_init_def)

lemma init_from_rejected:
  "validators_string vc (dget kwargs ''from_'') = Inl e \<Longrightarrow>
   ArcDiagramData_init vc base kwargs = Inl e"
  by (simp add: ArcDiagramData_init_def)

lemma init_to_rejected:
  "validators_string vc (dget kwargs ''from_'') = Inr from_v \<Longrightarrow>
   validators_string vc (dget kwargs ''to'') = Inl e \<Longrightarrow>
   ArcDiagramData_init vc base kwargs = Inl e"
  by (simp add: ArcDiagramData_init_def)

lemma init_weight_rejected:
  "validators_string vc (dget kwargs ''from_'') = Inr from_v \<Longrightarrow>
   validators_string vc (dget kwargs ''to'') = Inr to_v \<Longrightarrow>
   validators_numeric vc (dget kwargs ''weight'') = Inl e \<Longrightarrow>
   ArcDiagramData_init vc base kwargs = Inl e"
  by (simp add: ArcDiagramData_init_def)

lemma untrimmed_dict_has_no_y:
  "map_of (ArcDiagramData_to_untrimmed_dict self) ''y'' = None"
  by (simp add: ArcDiagramData_to_untrimmed_dict_def)

text \<open>
  C10, as amended. \<^verbatim>\<open>ArcDiagramData.from_list\<close> returns an empty list for every input
  that is false in the sense of Python. For a list it returns the converted items in
  the order of the list when every item converts, and otherwise raises the error of the
  first item that does not convert. A \<^verbatim>\<open>None\<close> or \<^verbatim>\<open>EnforcedNullType\<close> item and a numeric
  item (that is none of the kinds tested before) are converted by the constructor,
  called with the keyword \<^verbatim>\<open>y\<close>; a list item of length exactly three is converted by the
  constructor, called with \<^verbatim>\<open>from_\<close>, \<^verbatim>\<open>to\<close> and \<^verbatim>\<open>weight\<close> taken from the positions 0, 1
  and 2. The constructor returns a data point that holds the validated values of
  \<^verbatim>\<open>from_\<close>, \<^verbatim>\<open>to\<close> and \<^verbatim>\<open>weight\<close> when the validators accept them and the constructor of
  the base class returns, and raises the error of the first validator that rejects its
  value. A list item of any other length, and any item that is of none of the kinds
  tested, raises \<^verbatim>\<open>HighchartsValueError\<close>. The supported dimensions are 1 and 3.
\<close>

theorem from_list_conversion:
  "(\<not> truthy value \<longrightarrow> from_list vc base value = Inr []) \<and>
   (length ps = length items \<and>
    (\<forall>i<length items. from_list_item vc base (items ! i) = Inr (ps ! i)) \<longrightarrow>
      from_list vc base (PList items) = Inr ps) \<and>
   (n < length items \<and> (\<forall>j<n. \<exists>p. from_list_item vc base (items ! j) = Inr p) \<and>
    from_list_item vc base (items ! n) = Inl e \<longrightarrow>
      from_list vc base (PList items) = Inl e) \<and>
   (item = PNone \<or> is_type item ''EnforcedNullType'' \<longrightarrow>
      from_list_item vc base item
        = map_sum id Data_point (ArcDiagramData_init vc base [(''y'', PNone)])) \<and>
   (checkers_is_numeric vc item \<and> \<not> is_type item ''SinglePointData'' \<and> \<not> is_dict item \<and>
    item \<noteq> PNone \<and> \<not> is_type item ''EnforcedNullType'' \<longrightarrow>
      from_list_item vc base item
        = map_sum id Data_point (ArcDiagramData_init vc base [(''y'', item)])) \<and>
   (\<not> checkers_is_numeric vc (PList xs) \<and> length xs = 3 \<longrightarrow>
      from_list_item vc base (PList xs)
        = map_sum id Data_point
            (ArcDiagramData_init vc base
               [(''from_'', xs ! 0), (''to'', xs ! 1), (''weight'', xs ! 2)])) \<and>
   (validators_string vc (dget kwargs ''from_'') = Inr from_v \<and>
    validators_string vc (dget kwargs ''to'') = Inr to_v \<and>
    validators_numeric vc (dget kwargs ''weight'') = Inr weight_v \<and>
    DataBase_init base kwargs = Inr b \<longrightarrow>
      ArcDiagramData_init vc base kwargs
        = Inr (data_base.extend b \<lparr>from' = from_v, to = to_v, weight = weight_v\<rparr>)) \<and>
   (validators_string vc (dget kwargs ''from_'') = Inl e \<longrightarrow>
      ArcDiagramData_init vc base kwargs = Inl e) \<and>
   (validators_string vc (dget kwargs ''from_'') = Inr from_v \<and>
    validators_string vc (dget kwargs ''to'') = Inl e \<longrightarrow>
      ArcDiagramData_init vc base kwargs = Inl e) \<and>
   (validators_string vc (dget kwargs ''from_'') = Inr from_v \<and>
    validators_string vc (dget kwargs ''to'') = Inr to_v \<and>
    validators_numeric vc (dget kwargs ''weight'') = Inl e \<longrightarrow>
      ArcDiagramData_init vc base kwargs = Inl e) \<and>
   (\<not> checkers_is_numeric vc (PList xs) \<and> length xs \<noteq> 3 \<longrightarrow>
      from_list_item vc base (PList xs) = Inl HighchartsValueError) \<and>
   (\<not> is_type item ''SinglePointData'' \<and> \<not> is_dict item \<and> item \<noteq> PNone \<and>
    \<not> is_type item ''EnforcedNullType'' \<and> \<not> checkers_is_numeric vc item \<and>
    \<not> is_iterable_forbid item \<longrightarrow>
      from_list_item vc base item = Inl HighchartsValueError) \<and>
   get_supported_dimensions = [1, 3]"
proof -
  have all: "from_list vc base (PList items) = Inr ps"
    if "length ps = length items"
      "\<forall>i<length items. from_list_item vc base (items ! i) = Inr (ps ! i)"
    unfolding from_list_list using that by (rule from_list_items_all)
  have err: "from_list vc base (PList items) = Inl e"
    if "n < length items" "\<forall>j<n. \<exists>p. from_list_item vc base (items ! j) = Inr p"
      "from_list_item vc base (items ! n) = Inl e"
    unfolding from_list_list using that by (rule from_list_items_first_error)
  show ?thesis
    apply (intro conjI impI)
    subgoal by (rule from_list_falsy)
    subgoal by (elim conjE) (rule all; assumption)
    subgoal by (elim conjE) (rule err; assumption)
    subgoal by (rule from_list_item_null)
    subgoal by (elim conjE) (rule from_list_item_numeric; assumption)
    subgoal by (elim conjE) (rule from_list_item_three; assumption)
    subgoal by (elim conjE) (rule init_accepted; assumption)
    subgoal by (rule init_from_rejected)
    subgoal by (elim conjE) (rule init_to_rejected; assumption)
    subgoal by (elim conjE) (rule init_weight_rejected; assumption)
    subgoal by (elim conjE) (rule from_list_item_other_length; assumption)
    subgoal by (elim conjE) (rule from_list_item_not_coercible; assumption)
    subgoal by (rule get_supported_dimensions_def)
    done
qed

theorem from_list_conversion_witness:
  "from_list (package_validators (\<lambda>s. None) (\<lambda>s. None)) plain_base (PList []) = Inr [] \<and>
   from_list (package_validators (\<lambda>s. None) (\<lambda>s. None)) plain_base
       (PList [PNone, PInt 4, PList [PStr ''a'', PStr ''b'', PInt 3]])
     = Inr [Data_point (data_base.extend no_properties \<lparr>from' = None, to = None, weight = PNone\<rparr>),
            Data_point (data_base.extend no_properties \<lparr>from' = None, to = None, weight = PNone\<rparr>),
            Data_point (data_base.extend no_properties
                          \<lparr>from' = Some ''a'', to = Some ''b'', weight = PInt 3\<rparr>)] \<and>
   from_list (package_validators (\<lambda>s. None) (\<lambda>s. None)) plain_base
       (PList [PInt 4, PList [PInt 1, PInt 2, PInt 3], PStr ''x''])
     = Inl ValidatorError \<and>
   from_list_item (package_validators (\<lambda>s. None) (\<lambda>s. None)) plain_base PNone
     = map_sum id Data_point
         (ArcDiagramData_init (package_validators (\<lambda>s. None) (\<lambda>s. None)) plain_base
            [(''y'', PNone)]) \<and>
   from_list_item (package_validators (\<lambda>s. None) (\<lambda>s. None)) plain_base (PInt 4)
     = map_sum id Data_point
         (ArcDiagramData_init (package_validators (\<lambda>s. None) (\<lambda>s. None)) plain_base
            [(''y'', PInt 4)]) \<and>
   from_list_item (package_validators (\<lambda>s. None) (\<lambda>s. None)) plain_base
       (PList [PStr ''a'', PStr ''b'', PInt 3])
     = map_sum id Data_point
         (ArcDiagramData_init (package_validators (\<lambda>s. None) (\<lambda>s. None)) plain_base
            [(''from_'', PStr ''a''), (''to'', PStr ''b''), (''weight'', PInt 3)]) \<and>
   ArcDiagramData_init (package_validators (\<lambda>s. None) (\<lambda>s. None)) plain_base
       [(''from_'', PStr ''a''), (''to'', PStr ''b''), (''weight'', PInt 3)]
     = Inr (data_base.extend no_properties
              \<lparr>from' = Some ''a'', to = Some ''b'', weight = PInt 3\<rparr>) \<and>
   ArcDiagramData_init (package_validators (\<lambda>s. None) (\<lambda>s. None)) plain_base
       [(''from_'', PInt 1), (''to'', PInt 2), (''weight'', PInt 3)]
     = Inl ValidatorError \<and>
   ArcDiagramData_init (package_validators (\<lambda>s. None) (\<lambda>s. None)) plain_base
       [(''from_'', PStr ''a''), (''to'', PInt 2), (''weight'', PInt 3)]
     = Inl ValidatorError \<and>
   ArcDiagramData_init (package_validators (\<lambda>s. None) (\<lambda>s. None)) plain_base
       [(''from_'', PStr ''a''), (''to'', PStr ''b''), (''weight'', PList [])]
     = Inl ValidatorError \<and>
   from_list_item (package_validators (\<lambda>s. None) (\<lambda>s. None)) plain_base
       (PList [PStr ''a'', PStr ''b''])
     = Inl HighchartsValueError \<and>
   from_list_item (package_validators (\<lambda>s. None) (\<lambda>s. None)) plain_base (PStr ''x'')
     = Inl HighchartsValueError"
proof -
  let ?V = "package_validators (\<lambda>s. None) (\<lambda>s. None)"
  let ?B = "plain_base"
  let ?p = "data_base.extend no_properties \<lparr>from' = None, to = None, weight = PNone\<rparr>"
  let ?q = "data_base.extend no_properties \<lparr>from' = Some ''a'', to = Some ''b'', weight = PInt 3\<rparr>"
  let ?abc = "[PStr ''a'', PStr ''b'', PInt 3]"
  let ?good = "[(''from_'', PStr ''a''), (''to'', PStr ''b''), (''weight'', PInt 3)]"
  let ?bad_from = "[(''from_'', PInt 1), (''to'', PInt 2), (''weight'', PInt 3)]"
  let ?bad_to = "[(''from_'', PStr ''a''), (''to'', PInt 2), (''weight'', PInt 3)]"
  let ?bad_weight = "[(''from_'', PStr ''a''), (''to'', PStr ''b''), (''weight'', PList [])]"
  let ?items = "[PNone, PInt 4, PList ?abc]"
  let ?ps = "[Data_point ?p, Data_point ?p, Data_point ?q]"
  let ?failing = "[PInt 4, PList [PInt 1, PInt 2, PInt 3], PStr ''x'']"
  have num: "checkers_is_numeric ?V (PInt 4)" "\<not> checkers_is_numeric ?V (PStr ''x'')"
    "\<not> checkers_is_numeric ?V (PList ?abc)"
    "\<not> checkers_is_numeric ?V (PList [PStr ''a'', PStr ''b''])"
    by (simp_all add: package_validators_def)
  have good: "validators_string ?V (dget ?good ''from_'') = Inr (Some ''a'')"
    "validators_string ?V (dget ?good ''to'') = Inr (Some ''b'')"
    "validators_numeric ?V (dget ?good ''weight'') = Inr (PInt 3)"
    "DataBase_init ?B ?good = Inr no_properties"
    by (simp_all add: package_validators_def package_string_def plain_base_def dget_def)
  have bad_from: "validators_string ?V (dget ?bad_from ''from_'') = Inl ValidatorError"
    by (simp add: package_validators_def package_string_def dget_def)
  have bad_to: "validators_string ?V (dget ?bad_to ''from_'') = Inr (Some ''a'')"
    "validators_string ?V (dget ?bad_to ''to'') = Inl ValidatorError"
    by (simp_all add: package_validators_def package_string_def dget_def)
  have bad_weight: "validators_string ?V (dget ?bad_weight ''from_'') = Inr (Some ''a'')"
    "validators_string ?V (dget ?bad_weight ''to'') = Inr (Some ''b'')"
    "validators_numeric ?V (dget ?bad_weight ''weight'') = Inl ValidatorError"
    by (simp_all add: package_validators_def package_string_def dget_def)
  have item0: "from_list_item ?V ?B PNone = Inr (Data_point ?p)"
    and item1: "from_list_item ?V ?B (PInt 4) = Inr (Data_point ?p)"
    and item2: "from_list_item ?V ?B (PList ?abc) = Inr (Data_point ?q)"
    and item3: "from_list_item ?V ?B (PList [PInt 1, PInt 2, PInt 3]) = Inl ValidatorError"
    by (simp_all add: from_list_item_def ArcDiagramData_init_def package_validators_def
          package_string_def plain_base_def dget_def)
  have every: "\<forall>i<length ?items. from_list_item ?V ?B (?items ! i) = Inr (?ps ! i)"
    using item0 item1 item2 by (auto simp: less_Suc_eq nth_Cons')
  have before: "\<forall>j<1. \<exists>p. from_list_item ?V ?B (?failing ! j) = Inr p"
    using item1 by simp
  have at: "from_list_item ?V ?B (?failing ! 1) = Inl ValidatorError" "1 < length ?failing"
    using item3 by simp_all
  note first = from_list_conversion[of "PList []" ?V ?B ?ps ?items 1 ValidatorError PNone
      ?abc ?good "Some ''a''" "Some ''b''" "PInt 3" no_properties]
  note second = from_list_conversion[of "PList []" ?V ?B ?ps ?failing 1 ValidatorError "PInt 4"
      "[PStr ''a'', PStr ''b'']" ?bad_from "Some ''a''" "Some ''b''" "PInt 3" no_properties]
  note third = from_list_conversion[of "PList []" ?V ?B ?ps ?failing 1 ValidatorError "PStr ''x''"
      "[PStr ''a'', PStr ''b'']" ?bad_to "Some ''a''" "Some ''b''" "PInt 3" no_properties]
  note fourth = from_list_conversion[of "PList []" ?V ?B ?ps ?failing 1 ValidatorError "PStr ''x''"
      "[PStr ''a'', PStr ''b'']" ?bad_weight "Some ''a''" "Some ''b''" "PInt 3" no_properties]
  have c1: "from_list ?V ?B (PList []) = Inr []" using first by simp
  have c2: "from_list ?V ?B (PList ?items) = Inr ?ps"
    using first every by simp
  have c3: "from_list ?V ?B (PList ?failing) = Inl ValidatorError"
    using second before at by blast
  have c4: "from_list_item ?V ?B PNone
      = map_sum id Data_point (ArcDiagramData_init ?V ?B [(''y'', PNone)])"
    using first by blast
  have c5: "from_list_item ?V ?B (PInt 4)
      = map_sum id Data_point (ArcDiagramData_init ?V ?B [(''y'', PInt 4)])"
    using second num(1) by simp
  have c6: "from_list_item ?V ?B (PList ?abc)
      = map_sum id Data_point (ArcDiagramData_init ?V ?B ?good)"
    using first num(3) by simp
  have c7: "ArcDiagramData_init ?V ?B ?good = Inr ?q"
    using first good by blast
  have c8: "ArcDiagramData_init ?V ?B ?bad_from = Inl ValidatorError"
    using second bad_from by blast
  have c9: "ArcDiagramData_init ?V ?B ?bad_to = Inl ValidatorError"
    using third bad_to by blast
  have c10: "ArcDiagramData_init ?V ?B ?bad_weight = Inl ValidatorError"
    using fourth bad_weight by blast
  have c11: "from_list_item ?V ?B (PList [PStr ''a'', PStr ''b'']) = Inl HighchartsValueError"
    using second num(4) by simp
  have c12: "from_list_item ?V ?B (PStr ''x'') = Inl HighchartsValueError"
    using third num(2) by simp
  show ?thesis using c1 c2 c3 c4 c5 c6 c7 c8 c9 c10 c11 c12 by blast
qed

theorem from_list_counterexample:
  "from_list (package_validators (\<lambda>s. None) (\<lambda>s. None)) plain_base
     (PList [PList [PInt 1, PInt 2, PInt 3]]) = Inl ValidatorError \<and>
   from_list (package_validators (\<lambda>s. None) (\<lambda>s. None)) plain_base (PList [PInt 4])
     = Inr [Data_point (data_base.extend no_properties
                          \<lparr>from' = None, to = None, weight = PNone\<rparr>)] \<and>
   map_of (ArcDiagramData_to_untrimmed_dict
             (data_base.extend no_properties \<lparr>from' = None, to = None, weight = PNone\<rparr>)) ''y''
     = None"
  by (simp add: from_list_def from_list_item_def ArcDiagramData_init_def package_validators_def
        package_string_def plain_base_def dget_def ArcDiagramData_to_untrimmed_dict_def)

end
